theory Spec2Isabelle
  imports Main "HOL-Library.Word"
begin

section \<open>Values of the program\<close>

text \<open>
  The program is one Python module, \<^verbatim>\<open>src/app/frontend.py\<close>. A Python \<^verbatim>\<open>str\<close> is a
  sequence of code points, so it is a list of naturals here; \<open>py\<close> turns an ASCII
  literal of this theory into such a string. Python \<^verbatim>\<open>bytes\<close> are lists of 8-bit words.
\<close>

type_synonym pystr = "nat list"

type_synonym byte = "8 word"

definition py :: "string \<Rightarrow> pystr" where
  "py s = map of_char s"

text \<open>
  What \<^verbatim>\<open>response.json()\<close> returns: the values of the feed, of the identity and of the
  login body are used as they come, so they keep their dynamic type. \<open>JNull\<close> is
  Python's \<^verbatim>\<open>None\<close>. Numbers are integers: a float takes the same branch as an integer
  everywhere below (truthy unless zero, no string method). A dictionary is an
  association list read with \<open>map_of\<close>.
\<close>

datatype json =
    JNull
  | JBool bool
  | JInt int
  | JStr pystr
  | JList "json list"
  | JDict "(pystr \<times> json) list"

text \<open>The exceptions the modelled statements can raise.\<close>

datatype py_error =
    TransportError
  | JSONDecodeError
  | KeyError
  | TypeError
  | AttributeError
  | UnicodeEncodeError

text \<open>Python's truth value of an object, as \<^verbatim>\<open>if x:\<close> and \<^verbatim>\<open>not x\<close> test it.\<close>

fun truthy :: "json \<Rightarrow> bool" where
  "truthy JNull = False"
| "truthy (JBool b) = b"
| "truthy (JInt n) = (n \<noteq> 0)"
| "truthy (JStr s) = (s \<noteq> [])"
| "truthy (JList xs) = (xs \<noteq> [])"
| "truthy (JDict kvs) = (kvs \<noteq> [])"

text \<open>\<^verbatim>\<open>d.get(key, default)\<close> on a dictionary.\<close>

definition dict_get :: "(pystr \<times> json) list \<Rightarrow> string \<Rightarrow> json \<Rightarrow> json" where
  "dict_get kvs key dflt = (case map_of kvs (py key) of None \<Rightarrow> dflt | Some v \<Rightarrow> v)"

section \<open>Library functions the URL builder calls\<close>

subsection \<open>\<^verbatim>\<open>str.encode('utf-8')\<close>\<close>

text \<open>
  The strict encoder: a surrogate code point raises \<^verbatim>\<open>UnicodeEncodeError\<close>. A Python
  string holds no code point from \<open>0x110000\<close> on; the model answers such a list with
  the same error.
\<close>

definition is_scalar :: "nat \<Rightarrow> bool" where
  "is_scalar c = (c < 0xD800 \<or> (0xE000 \<le> c \<and> c < 0x110000))"

definition unicode_text :: "pystr \<Rightarrow> bool" where
  "unicode_text s = list_all is_scalar s"

definition utf8_code_point :: "nat \<Rightarrow> byte list" where
  "utf8_code_point c =
     (if c < 0x80 then [of_nat c]
      else if c < 0x800 then [of_nat (0xC0 + c div 64), of_nat (0x80 + c mod 64)]
      else if c < 0x10000 then
        [of_nat (0xE0 + c div 4096), of_nat (0x80 + c div 64 mod 64), of_nat (0x80 + c mod 64)]
      else
        [of_nat (0xF0 + c div 262144), of_nat (0x80 + c div 4096 mod 64),
         of_nat (0x80 + c div 64 mod 64), of_nat (0x80 + c mod 64)])"

definition utf8_bytes :: "pystr \<Rightarrow> byte list" where
  "utf8_bytes s = concat (map utf8_code_point s)"

definition encode_utf8 :: "pystr \<Rightarrow> py_error + byte list" where
  "encode_utf8 s = (if unicode_text s then Inr (utf8_bytes s) else Inl UnicodeEncodeError)"

subsection \<open>\<^verbatim>\<open>base64.b64encode\<close>\<close>

text \<open>
  The standard alphabet with \<open>=\<close> padding (RFC 4648). Its output is ASCII, and
  \<^verbatim>\<open>.decode('utf-8')\<close> of ASCII bytes is the text of the same characters: a
  \<open>string\<close> stands for both.
\<close>

definition b64_alphabet :: string where
  "b64_alphabet = ''ABCDEFGHIJKLMNOPQRSTUVWXYZabcdefghijklmnopqrstuvwxyz0123456789+/''"

definition b64char :: "nat \<Rightarrow> char" where
  "b64char i = b64_alphabet ! i"

fun b64encode :: "byte list \<Rightarrow> string" where
  "b64encode [] = []"
| "b64encode [a] =
     [b64char (unat a div 4), b64char (unat a mod 4 * 16), CHR ''='', CHR ''='']"
| "b64encode [a, b] =
     [b64char (unat a div 4), b64char (unat a mod 4 * 16 + unat b div 16),
      b64char (unat b mod 16 * 4), CHR ''='']"
| "b64encode (a # b # c # rest) =
     [b64char (unat a div 4), b64char (unat a mod 4 * 16 + unat b div 16),
      b64char (unat b mod 16 * 4 + unat c div 64), b64char (unat c mod 64)] @ b64encode rest"

subsection \<open>\<^verbatim>\<open>urllib.parse.quote\<close>\<close>

text \<open>
  Called with one argument, so \<^verbatim>\<open>safe\<close> has its default \<^verbatim>\<open>'/'\<close>: the bytes kept as
  they are are the letters, the digits, \<^verbatim>\<open>_.-~\<close> and the slash; every other byte
  becomes \<open>%\<close> and two upper-case hexadecimal digits. The argument here is ASCII,
  one byte per character.
\<close>

definition quote_safe :: string where
  "quote_safe = ''ABCDEFGHIJKLMNOPQRSTUVWXYZabcdefghijklmnopqrstuvwxyz0123456789_.-~/''"

definition hex_digits :: string where
  "hex_digits = ''0123456789ABCDEF''"

definition quote_byte :: "char \<Rightarrow> string" where
  "quote_byte c =
     (if c \<in> set quote_safe then [c]
      else [CHR ''%'', hex_digits ! (of_char c div 16), hex_digits ! (of_char c mod 16)])"

definition quote :: "string \<Rightarrow> string" where
  "quote s = concat (map quote_byte s)"

subsection \<open>\<^verbatim>\<open>str.split\<close> and \<^verbatim>\<open>str.join\<close>\<close>

text \<open>
  \<^verbatim>\<open>s.split(sep)\<close> for a separator of one character: every occurrence cuts, so the
  result has one segment more than \<open>s\<close> has separators, and the empty string gives
  one empty segment.
\<close>

fun str_split :: "'a \<Rightarrow> 'a list \<Rightarrow> 'a list list" where
  "str_split sep [] = [[]]"
| "str_split sep (c # cs) =
     (let r = str_split sep cs
      in if c = sep then [] # r else (c # hd r) # tl r)"

fun str_join :: "'a list \<Rightarrow> 'a list list \<Rightarrow> 'a list" where
  "str_join sep [] = []"
| "str_join sep [p] = p"
| "str_join sep (p # q # ps) = p @ sep @ str_join sep (q # ps)"

definition slash :: nat where
  "slash = of_char CHR ''/''"

section \<open>The URL transform builder\<close>

text \<open>\<^verbatim>\<open>encode_text_for_overlay\<close> (lines 53 to 58). A truthy value that is no string has
  no \<^verbatim>\<open>encode\<close> method.\<close>

definition encode_text_for_overlay :: "json \<Rightarrow> py_error + pystr" where
  "encode_text_for_overlay text =
     (if \<not> truthy text then Inr []
      else (case text of
              JStr s \<Rightarrow>
                (case encode_utf8 s of
                   Inl e \<Rightarrow> Inl e
                 | Inr bs \<Rightarrow> Inr (py (quote (b64encode bs))))
            | _ \<Rightarrow> Inl AttributeError))"

text \<open>
  \<^verbatim>\<open>create_transformed_url\<close> (lines 60 to 75), the spec's \<open>buildUrl\<close>. The URL and the
  caption come from the feed's JSON; the transform is a string literal at both call
  sites. \<open>overlay_params\<close> is the assignment of lines 61 to 64, \<open>splice\<close> lines 69 to 75;
  a URL that is no string has no \<^verbatim>\<open>split\<close> method.
\<close>

definition overlay_params :: "pystr \<Rightarrow> json \<Rightarrow> py_error + pystr" where
  "overlay_params transformation_params caption =
     (if truthy caption then
        (case encode_text_for_overlay caption of
           Inl e \<Rightarrow> Inl e
         | Inr encoded_caption \<Rightarrow>
             Inr (py ''l-text,ie-'' @ encoded_caption
                  @ py '',ly-N20,lx-20,fs-100,co-white,bg-000000A0,l-end''))
      else Inr transformation_params)"

definition splice :: "pystr \<Rightarrow> pystr \<Rightarrow> pystr" where
  "splice original_url transformation_params =
     (let parts = str_split slash original_url
      in if length parts < 5 then original_url
         else
           let file_path = str_join (py ''/'') (drop 4 parts);
               base_url = str_join (py ''/'') (take 4 parts)
           in base_url @ py ''/tr:'' @ transformation_params @ py ''/'' @ file_path)"

definition create_transformed_url :: "json \<Rightarrow> pystr \<Rightarrow> json \<Rightarrow> py_error + json" where
  "create_transformed_url original_url transformation_params caption =
     (case overlay_params transformation_params caption of
        Inl e \<Rightarrow> Inl e
      | Inr params \<Rightarrow>
          if params = [] then Inr original_url
          else (case original_url of
                  JStr url \<Rightarrow> Inr (JStr (splice url params))
                | _ \<Rightarrow> Inl AttributeError))"

section \<open>The decoders of the round trip\<close>





section \<open>The backend, the session and the screen\<close>

text \<open>
  A call of \<^verbatim>\<open>requests\<close> either raises (no connection, a timeout) or returns a response,
  of which the program reads the status code, \<^verbatim>\<open>.json()\<close> and \<^verbatim>\<open>.text\<close>; \<open>json_body = None\<close>
  is a body for which \<^verbatim>\<open>.json()\<close> raises. A request is its endpoint, its payload and the
  value behind \<^verbatim>\<open>Bearer\<close> in the headers of \<^verbatim>\<open>get_headers\<close> (\<open>None\<close> for no header). The
  backend is outside the program: any function from the requests sent so far and the
  request to the result of the call.
\<close>

record response =
  status_code :: int
  json_body :: "json option"
  body_text :: pystr

record uploaded =
  file_name :: pystr
  file_bytes :: "byte list"
  file_type :: pystr

datatype 'a call = Fails | Returns 'a

datatype request =
    GET_users_me "json option"
  | POST_login pystr pystr
  | POST_register pystr pystr
  | GET_feed "json option"
  | DELETE_post json "json option"
  | POST_upload uploaded pystr "json option"

type_synonym backend = "request list \<Rightarrow> request \<Rightarrow> response call"

text \<open>What a run puts on the screen, as far as the modelled pages go.\<close>

datatype ui_event =
    StError string
  | StSuccess string
  | StInfo string
  | RegistrationFailed json
  | PostHeader json json
  | DeleteButton json
  | StImage json
  | StVideo json
  | StCaption json
  | UploadFailed json

text \<open>
  \<^verbatim>\<open>st.session_state\<close> with its three keys, the \<^verbatim>\<open>token\<close> query parameter of the page's
  URL (the token carrier; it holds the value handed to
  \<^verbatim>\<open>st.experimental_set_query_params\<close>), the requests sent and the screen.
\<close>

record world =
  token :: json
  user :: json
  last_token_check_failed :: bool
  query_token :: "json option"
  requests_sent :: "request list"
  screen :: "ui_event list"

text \<open>How a page ends: it returns, it calls \<^verbatim>\<open>st.rerun()\<close>, or an exception leaves it.\<close>

datatype outcome = Done | Rerun | Raised py_error

definition display :: "ui_event \<Rightarrow> world \<Rightarrow> world" where
  "display e w = w\<lparr>screen := screen w @ [e]\<rparr>"

definition http :: "backend \<Rightarrow> request \<Rightarrow> world \<Rightarrow> response call \<times> world" where
  "http be req w = (be (requests_sent w) req, w\<lparr>requests_sent := requests_sent w @ [req]\<rparr>)"

text \<open>\<^verbatim>\<open>get_headers\<close> (lines 27 to 31).\<close>

definition get_headers :: "world \<Rightarrow> json option" where
  "get_headers w = (if truthy (token w) then Some (token w) else None)"

section \<open>The session controller\<close>

text \<open>
  Lines 15 to 20 on the empty session state of a new page load, with the query
  parameter the URL carries. On a later run of the same session the three keys
  exist and these lines do nothing.
\<close>

definition new_session :: "json option \<Rightarrow> world" where
  "new_session q =
     \<lparr>token = JNull, user = JNull, last_token_check_failed = False,
      query_token = q, requests_sent = [], screen = []\<rparr>"

text \<open>Lines 23 to 25: the token is restored from the query parameter.\<close>

definition restore_token :: "world \<Rightarrow> world" where
  "restore_token w =
     (case query_token w of
        Some t \<Rightarrow> if \<not> truthy (token w) then w\<lparr>token := t\<rparr> else w
      | None \<Rightarrow> w)"

text \<open>
  Lines 35 to 48, the reconcile block at module level. \<^verbatim>\<open>except Exception\<close> takes the
  failure of the call and of \<^verbatim>\<open>.json()\<close> alike.
\<close>

definition reconcile :: "backend \<Rightarrow> world \<Rightarrow> world" where
  "reconcile be w =
     (if truthy (token w) \<and> user w = JNull \<and> \<not> last_token_check_failed w then
        (case http be (GET_users_me (get_headers w)) w of
           (Fails, w1) \<Rightarrow> w1\<lparr>last_token_check_failed := True\<rparr>
         | (Returns user_response, w1) \<Rightarrow>
             if status_code user_response = 200 then
               (case json_body user_response of
                  None \<Rightarrow> w1\<lparr>last_token_check_failed := True\<rparr>
                | Some u \<Rightarrow> w1\<lparr>user := u\<rparr>)
             else
               w1\<lparr>token := JNull, user := JNull, query_token := None,
                  last_token_check_failed := True\<rparr>)
      else w)"

text \<open>The top of the script, run at every render: lines 23 to 48.\<close>

definition prologue :: "backend \<Rightarrow> world \<Rightarrow> world" where
  "prologue be w = reconcile be (restore_token w)"

text \<open>
  The states of the spec's controller (section 4.2), read off the three session
  fields with the tests the program applies to them.
\<close>

datatype session_state = Unauthenticated | PendingVerification | VerificationFailed | Authenticated

definition state_of :: "world \<Rightarrow> session_state" where
  "state_of w =
     (if \<not> truthy (token w) then Unauthenticated
      else if user w \<noteq> JNull then Authenticated
      else if last_token_check_failed w then VerificationFailed
      else PendingVerification)"

section \<open>The login page\<close>

text \<open>
  \<^verbatim>\<open>login_page\<close> (lines 80 to 133). The inputs of a run are the two text fields and the
  button pressed, if any. \<open>login_clicked\<close> is the body of the Login button (lines 91
  to 113), \<open>signup_clicked\<close> that of the Sign Up button (lines 117 to 131).
  \<^verbatim>\<open>token_data["access_token"]\<close> raises on a body that is no dictionary or lacks the key.
  The identity fetch of line 106 stands outside every \<^verbatim>\<open>try\<close>.
\<close>

datatype click = NoClick | LoginClick | SignUpClick

definition subscript :: "json \<Rightarrow> string \<Rightarrow> py_error + json" where
  "subscript d key =
     (case d of
        JDict kvs \<Rightarrow> (case map_of kvs (py key) of None \<Rightarrow> Inl KeyError | Some v \<Rightarrow> Inr v)
      | _ \<Rightarrow> Inl TypeError)"

definition login_clicked :: "backend \<Rightarrow> pystr \<Rightarrow> pystr \<Rightarrow> world \<Rightarrow> world \<times> outcome" where
  "login_clicked be email password w =
     (case http be (POST_login email password) w of
        (Fails, w1) \<Rightarrow>
          (display (StError ''Could not contact backend. Is the API running?'') w1, Done)
      | (Returns response, w1) \<Rightarrow>
          if status_code response = 200 then
            (case json_body response of
               None \<Rightarrow> (w1, Raised JSONDecodeError)
             | Some token_data \<Rightarrow>
                 (case subscript token_data ''access_token'' of
                    Inl e \<Rightarrow> (w1, Raised e)
                  | Inr tok \<Rightarrow>
                      let w2 = w1\<lparr>token := tok\<rparr>;
                          w3 = w2\<lparr>query_token := Some (token w2)\<rparr>
                      in (case http be (GET_users_me (get_headers w3)) w3 of
                            (Fails, w4) \<Rightarrow> (w4, Raised TransportError)
                          | (Returns user_response, w4) \<Rightarrow>
                              if status_code user_response = 200 then
                                (case json_body user_response of
                                   None \<Rightarrow> (w4, Raised JSONDecodeError)
                                 | Some u \<Rightarrow> (w4\<lparr>user := u\<rparr>, Rerun))
                              else (display (StError ''Failed to get user info'') w4, Done))))
          else (display (StError ''Invalid email or password!'') w1, Done))"

definition signup_clicked :: "backend \<Rightarrow> pystr \<Rightarrow> pystr \<Rightarrow> world \<Rightarrow> world \<times> outcome" where
  "signup_clicked be email password w =
     (case http be (POST_register email password) w of
        (Fails, w1) \<Rightarrow>
          (display (StError ''Could not contact backend. Is the API running?'') w1, Done)
      | (Returns response, w1) \<Rightarrow>
          if status_code response = 201 then
            (display (StSuccess ''Account created! Click Login now.'') w1, Done)
          else
            let error_detail =
                  (case json_body response of
                     Some (JDict kvs) \<Rightarrow> dict_get kvs ''detail'' (JStr (py ''Registration failed''))
                   | _ \<Rightarrow> JStr (py ''Registration failed''))
            in (display (RegistrationFailed error_detail) w1, Done))"

definition login_page :: "backend \<Rightarrow> pystr \<Rightarrow> pystr \<Rightarrow> click \<Rightarrow> world \<Rightarrow> world \<times> outcome" where
  "login_page be email password pressed w =
     (if email \<noteq> [] \<and> password \<noteq> [] then
        (case pressed of
           LoginClick \<Rightarrow> login_clicked be email password w
         | SignUpClick \<Rightarrow> signup_clicked be email password w
         | NoClick \<Rightarrow> (w, Done))
      else (display (StInfo ''Enter your email and password above'') w, Done))"

text \<open>The Logout button of the sidebar (lines 219 to 224).\<close>

definition logout :: "world \<Rightarrow> world \<times> outcome" where
  "logout w = (w\<lparr>user := JNull, token := JNull, query_token := None\<rparr>, Rerun)"

section \<open>The feed page\<close>

text \<open>
  \<^verbatim>\<open>feed_page\<close> (lines 161 to 208). \<open>clicked\<close> tells of which post the delete button was
  pressed, by the post's id. \<open>render_post\<close> is the body of the loop over the posts
  (lines 177 to 205) and \<open>render_media\<close> its last part (lines 196 to 203); \<open>Done\<close> from
  the body goes on with the next post. A post that is no dictionary has no \<^verbatim>\<open>get\<close>;
  \<^verbatim>\<open>[:10]\<close> raises on a value that is neither a string nor a list.
\<close>

definition slice10 :: "json \<Rightarrow> py_error + json" where
  "slice10 v =
     (case v of
        JStr s \<Rightarrow> Inr (JStr (take 10 s))
      | JList xs \<Rightarrow> Inr (JList (take 10 xs))
      | _ \<Rightarrow> Inl TypeError)"

definition render_media :: "(pystr \<times> json) list \<Rightarrow> world \<Rightarrow> world \<times> outcome" where
  "render_media post w =
     (let caption = dict_get post ''caption'' (JStr [])
      in if dict_get post ''file_type'' JNull = JStr (py ''image'') then
           (case create_transformed_url (dict_get post ''url'' (JStr [])) [] caption of
              Inl e \<Rightarrow> (w, Raised e)
            | Inr uniform_url \<Rightarrow> (display (StImage uniform_url) w, Done))
         else
           (case create_transformed_url (dict_get post ''url'' (JStr []))
                   (py ''w-400,h-200,cm-pad_resize,bg-blurred'') JNull of
              Inl e \<Rightarrow> (w, Raised e)
            | Inr uniform_video_url \<Rightarrow>
                (display (StCaption caption) (display (StVideo uniform_video_url) w), Done)))"

definition render_post :: "backend \<Rightarrow> (json \<Rightarrow> bool) \<Rightarrow> json \<Rightarrow> world \<Rightarrow> world \<times> outcome" where
  "render_post be clicked p w =
     (case p of
        JDict post \<Rightarrow>
          (case slice10 (dict_get post ''created_at'' (JStr [])) of
             Inl e \<Rightarrow> (w, Raised e)
           | Inr day \<Rightarrow>
               let w1 = display (PostHeader (dict_get post ''email'' (JStr (py ''Unknown''))) day) w
               in if truthy (dict_get post ''is_owner'' (JBool False)) then
                    (case subscript p ''id'' of
                       Inl e \<Rightarrow> (w1, Raised e)
                     | Inr post_id \<Rightarrow>
                         let w2 = display (DeleteButton post_id) w1
                         in if clicked post_id then
                              (case http be (DELETE_post post_id (get_headers w2)) w2 of
                                 (Fails, w3) \<Rightarrow>
                                   (display (StError ''Failed to contact backend.'') w3, Done)
                               | (Returns resp, w3) \<Rightarrow>
                                   if status_code resp = 200 then
                                     (display (StSuccess ''Post deleted!'') w3, Rerun)
                                   else
                                     render_media post
                                       (display (StError ''Failed to delete post!'') w3))
                            else render_media post w2)
                  else render_media post w1)
      | _ \<Rightarrow> (w, Raised AttributeError))"

fun feed_posts :: "backend \<Rightarrow> (json \<Rightarrow> bool) \<Rightarrow> json list \<Rightarrow> world \<Rightarrow> world \<times> outcome" where
  "feed_posts be clicked [] w = (w, Done)"
| "feed_posts be clicked (p # ps) w =
     (case render_post be clicked p w of
        (w1, Done) \<Rightarrow> feed_posts be clicked ps w1
      | (w1, out) \<Rightarrow> (w1, out))"

text \<open>
  The loop runs over whatever \<^verbatim>\<open>posts\<close> is: the items of a list, the characters of a
  string or the keys of a dictionary (strings, which have no \<^verbatim>\<open>get\<close>); a number or
  \<^verbatim>\<open>True\<close> cannot be iterated.
\<close>

definition feed_page :: "backend \<Rightarrow> (json \<Rightarrow> bool) \<Rightarrow> world \<Rightarrow> world \<times> outcome" where
  "feed_page be clicked w =
     (case http be (GET_feed (get_headers w)) w of
        (Fails, w1) \<Rightarrow>
          (display (StError ''Failed to contact backend. Is the API running?'') w1, Done)
      | (Returns response, w1) \<Rightarrow>
          if status_code response = 200 then
            (case json_body response of
               None \<Rightarrow> (w1, Raised JSONDecodeError)
             | Some (JDict body) \<Rightarrow>
                 let posts = dict_get body ''posts'' (JList [])
                 in if \<not> truthy posts then
                      (display (StInfo ''No posts yet! Be the first to share something.'') w1, Done)
                    else
                      (case posts of
                         JList ps \<Rightarrow> feed_posts be clicked ps w1
                       | JStr s \<Rightarrow> (w1, Raised AttributeError)
                       | JDict kvs \<Rightarrow> (w1, Raised AttributeError)
                       | _ \<Rightarrow> (w1, Raised TypeError))
             | Some _ \<Rightarrow> (w1, Raised AttributeError))
          else (display (StError ''Failed to load feed'') w1, Done))"

section \<open>The upload page and the main logic\<close>

text \<open>\<^verbatim>\<open>upload_page\<close> (lines 135 to 159): the file chosen, the caption typed and the Share
  button.\<close>

definition upload_page :: "backend \<Rightarrow> uploaded option \<Rightarrow> pystr \<Rightarrow> bool \<Rightarrow> world \<Rightarrow> world \<times> outcome" where
  "upload_page be uploaded_file caption share w =
     (case uploaded_file of
        None \<Rightarrow> (w, Done)
      | Some f \<Rightarrow>
          if share then
            (case http be (POST_upload f caption (get_headers w)) w of
               (Fails, w1) \<Rightarrow> (display (StError ''Upload failed: cannot contact backend.'') w1, Done)
             | (Returns response, w1) \<Rightarrow>
                 if status_code response = 200 then (display (StSuccess ''Posted!'') w1, Rerun)
                 else
                   let err = (case json_body response of
                                Some j \<Rightarrow> j
                              | None \<Rightarrow> JStr (body_text response))
                   in (display (UploadFailed err) w1, Done))
          else (w, Done))"

text \<open>
  The inputs of one run of the script: the widgets' values. The main logic (lines
  213 to 232) shows the login page while there is no user; otherwise the sidebar
  reads \<^verbatim>\<open>user['email']\<close>, then come the Logout button and the page chosen.
\<close>

datatype nav = FeedPage | UploadPage

record inputs =
  email_field :: pystr
  password_field :: pystr
  pressed :: click
  logout_pressed :: bool
  page :: nav
  delete_clicked :: "json \<Rightarrow> bool"
  chosen_file :: "uploaded option"
  caption_field :: pystr
  share_pressed :: bool

definition main :: "backend \<Rightarrow> inputs \<Rightarrow> world \<Rightarrow> world \<times> outcome" where
  "main be inp w =
     (if user w = JNull then
        login_page be (email_field inp) (password_field inp) (pressed inp) w
      else
        (case subscript (user w) ''email'' of
           Inl e \<Rightarrow> (w, Raised e)
         | Inr _ \<Rightarrow>
             if logout_pressed inp then logout w
             else if page inp = FeedPage then feed_page be (delete_clicked inp) w
             else upload_page be (chosen_file inp) (caption_field inp) (share_pressed inp) w))"

text \<open>One run of the script within a session, and a sequence of runs: whatever way a
  run ends, the session state it leaves is the one the next run starts from.\<close>

definition script_run :: "backend \<Rightarrow> inputs \<Rightarrow> world \<Rightarrow> world \<times> outcome" where
  "script_run be inp w = main be inp (prologue be w)"

fun script_runs :: "backend \<Rightarrow> inputs list \<Rightarrow> world \<Rightarrow> world" where
  "script_runs be [] w = w"
| "script_runs be (inp # inps) w = script_runs be inps (fst (script_run be inp w))"

section \<open>Notions the statements use\<close>

text \<open>
  The test of line 182 on a post, the delete buttons among the widgets on the screen,
  and the button the loop body offers for a post: none before the header is drawn,
  none for a post of another user, none when \<^verbatim>\<open>post['id']\<close> raises.
\<close>

definition is_owner :: "(pystr \<times> json) list \<Rightarrow> bool" where
  "is_owner post = truthy (dict_get post ''is_owner'' (JBool False))"

fun is_delete_button :: "ui_event \<Rightarrow> bool" where
  "is_delete_button (DeleteButton post_id) = True"
| "is_delete_button e = False"

definition offered :: "(pystr \<times> json) list \<Rightarrow> ui_event list" where
  "offered post =
     (case slice10 (dict_get post ''created_at'' (JStr [])) of
        Inl err \<Rightarrow> []
      | Inr day \<Rightarrow>
          if is_owner post then
            (case map_of post (py ''id'') of
               None \<Rightarrow> []
             | Some post_id \<Rightarrow> [DeleteButton post_id])
          else [])"


definition strip_affixes :: "'a list \<Rightarrow> 'a list \<Rightarrow> 'a list \<Rightarrow> 'a list option" where
  "strip_affixes pre suf s =
     (if length pre + length suf \<le> length s \<and> take (length pre) s = pre
         \<and> drop (length s - length suf) s = suf
      then Some (take (length s - length pre - length suf) (drop (length pre) s))
      else None)"

definition embedded_token :: "pystr \<Rightarrow> pystr option" where
  "embedded_token out =
     (let parts = str_split slash out
      in if length parts < 5 then None
         else strip_affixes (py ''tr:l-text,ie-'')
                (py '',ly-N20,lx-20,fs-100,co-white,bg-000000A0,l-end'') (parts ! 4))"

section \<open>Facts about the library functions\<close>












lemma str_split_nonempty: "str_split sep s \<noteq> []"
  by (induction s) (auto simp: Let_def)

lemma str_join_split: "str_join [sep] (str_split sep s) = s"
proof (induction s)
  case Nil
  then show ?case by simp
next
  case (Cons c s)
  obtain p ps where r: "str_split sep s = p # ps"
    using str_split_nonempty [of sep s] by (cases "str_split sep s") auto
  with Cons show ?case by (cases ps) (auto simp: Let_def)
qed

text \<open>What \<^verbatim>\<open>quote\<close> does to the three characters of base64 text that are neither letters
  nor digits, and the precedence of the caption over the transform argument.\<close>

lemma quote_byte_special:
  "quote_byte CHR ''+'' = ''%2B''" "quote_byte CHR ''='' = ''%3D''" "quote_byte CHR ''/'' = ''/''"
  by (simp_all add: quote_byte_def quote_safe_def hex_digits_def)

lemma caption_overrides_transform:
  "truthy caption \<Longrightarrow>
     create_transformed_url url t caption = create_transformed_url url t' caption"
  by (simp add: create_transformed_url_def overlay_params_def)




lemma str_split_plain: "sep \<notin> set p \<Longrightarrow> str_split sep p = [p]"
  by (induction p) (auto simp: Let_def)








section \<open>Facts about the pages\<close>

text \<open>No page writes \<open>last_token_check_failed\<close>: only the reconcile block does, and it
  only ever sets it.\<close>

lemma display_fields [simp]:
  "token (display e w) = token w" "user (display e w) = user w"
  "last_token_check_failed (display e w) = last_token_check_failed w"
  "query_token (display e w) = query_token w"
  "requests_sent (display e w) = requests_sent w"
  "screen (display e w) = screen w @ [e]"
  by (simp_all add: display_def)

lemma http_fields [simp]:
  "token (snd (http be req w)) = token w" "user (snd (http be req w)) = user w"
  "last_token_check_failed (snd (http be req w)) = last_token_check_failed w"
  "query_token (snd (http be req w)) = query_token w"
  "requests_sent (snd (http be req w)) = requests_sent w @ [req]"
  "screen (snd (http be req w)) = screen w"
  "fst (http be req w) = be (requests_sent w) req"
  by (simp_all add: http_def)

lemma reconcile_flag_set: "last_token_check_failed w \<Longrightarrow> reconcile be w = w"
  by (simp add: reconcile_def)

lemma restore_token_flag [simp]:
  "last_token_check_failed (restore_token w) = last_token_check_failed w"
  by (simp add: restore_token_def split: option.splits)

lemma prologue_flag_set: "last_token_check_failed w \<Longrightarrow> prologue be w = restore_token w"
  by (simp add: prologue_def reconcile_flag_set)

lemma login_clicked_flag [simp]:
  "last_token_check_failed (fst (login_clicked be email password w)) = last_token_check_failed w"
  by (simp add: login_clicked_def http_def display_def Let_def
      split: call.splits option.splits sum.splits)

lemma signup_clicked_flag [simp]:
  "last_token_check_failed (fst (signup_clicked be email password w)) = last_token_check_failed w"
  by (simp add: signup_clicked_def http_def display_def Let_def split: call.splits)

lemma login_page_flag [simp]:
  "last_token_check_failed (fst (login_page be email password c w)) = last_token_check_failed w"
  by (simp add: login_page_def split: click.splits)

lemma render_media_flag [simp]:
  "last_token_check_failed (fst (render_media post w)) = last_token_check_failed w"
  by (simp add: render_media_def Let_def split: sum.splits)

lemma render_post_flag [simp]:
  "last_token_check_failed (fst (render_post be clicked p w)) = last_token_check_failed w"
  by (simp add: render_post_def http_def Let_def
      split: json.splits sum.splits call.splits)

lemma feed_posts_flag [simp]:
  "last_token_check_failed (fst (feed_posts be clicked ps w)) = last_token_check_failed w"
proof (induction ps arbitrary: w)
  case Nil
  then show ?case by simp
next
  case (Cons p ps)
  obtain w1 out where r: "render_post be clicked p w = (w1, out)" by (cases "render_post be clicked p w")
  then have "last_token_check_failed w1 = last_token_check_failed w"
    using render_post_flag [of be clicked p w] by simp
  with r Cons show ?case by (cases out) simp_all
qed

lemma feed_page_flag [simp]:
  "last_token_check_failed (fst (feed_page be clicked w)) = last_token_check_failed w"
  by (simp add: feed_page_def http_def Let_def split: call.splits option.splits json.splits)

lemma upload_page_flag [simp]:
  "last_token_check_failed (fst (upload_page be f c s w)) = last_token_check_failed w"
  by (simp add: upload_page_def http_def Let_def split: call.splits option.splits)

lemma main_flag [simp]:
  "last_token_check_failed (fst (main be inp w)) = last_token_check_failed w"
  by (simp add: main_def logout_def split: sum.splits)

lemma script_run_flag:
  "last_token_check_failed w \<Longrightarrow> last_token_check_failed (fst (script_run be inp w))"
  by (simp add: script_run_def prologue_flag_set)

lemma script_runs_flag:
  "last_token_check_failed w \<Longrightarrow> last_token_check_failed (script_runs be inps w)"
  by (induction inps arbitrary: w) (simp_all add: script_run_flag)

lemma render_media_requests [simp]:
  "requests_sent (fst (render_media post w)) = requests_sent w"
  by (simp add: render_media_def Let_def split: sum.splits)

lemma render_media_buttons [simp]:
  "filter is_delete_button (screen (fst (render_media post w))) = filter is_delete_button (screen w)"
  by (simp add: render_media_def Let_def split: sum.splits)

lemma render_post_buttons_dict:
  "filter is_delete_button (screen (fst (render_post be clicked (JDict post) w)))
     = filter is_delete_button (screen w) @ offered post"
  by (simp add: render_post_def offered_def subscript_def is_owner_def http_def Let_def
      split: sum.splits call.splits option.splits)

lemma render_post_buttons_other:
  "\<forall>post. p \<noteq> JDict post \<Longrightarrow>
     filter is_delete_button (screen (fst (render_post be clicked p w)))
       = filter is_delete_button (screen w)"
  by (cases p) (simp_all add: render_post_def)

lemma offered_owner:
  assumes "e \<in> set (offered post)"
  shows "is_owner post \<and> (\<exists>post_id. map_of post (py ''id'') = Some post_id \<and> e = DeleteButton post_id)"
proof (cases "slice10 (dict_get post ''created_at'' (JStr []))")
  case (Inl err)
  with assms show ?thesis by (simp add: offered_def)
next
  case (Inr day)
  show ?thesis
  proof (cases "is_owner post")
    case False
    with assms Inr show ?thesis by (simp add: offered_def)
  next
    case True
    show ?thesis
    proof (cases "map_of post (py ''id'')")
      case None
      with assms Inr True show ?thesis by (simp add: offered_def)
    next
      case (Some post_id)
      with assms Inr True show ?thesis by (simp add: offered_def)
    qed
  qed
qed

lemma render_post_buttons:
  assumes "e \<in> set (filter is_delete_button (screen (fst (render_post be clicked p w))))"
    and "e \<notin> set (filter is_delete_button (screen w))"
  shows "\<exists>post post_id. p = JDict post \<and> is_owner post
           \<and> map_of post (py ''id'') = Some post_id \<and> e = DeleteButton post_id"
proof (cases "\<exists>post. p = JDict post")
  case True
  then obtain post where p: "p = JDict post" by blast
  have "set (filter is_delete_button (screen (fst (render_post be clicked (JDict post) w))))
          = set (filter is_delete_button (screen w)) \<union> set (offered post)"
    by (simp only: render_post_buttons_dict set_append)
  with assms p have "e \<in> set (offered post)" by blast
  from offered_owner [OF this] p show ?thesis by blast
next
  case False
  then have "filter is_delete_button (screen (fst (render_post be clicked p w)))
       = filter is_delete_button (screen w)"
    by (simp add: render_post_buttons_other)
  with assms show ?thesis by simp
qed

lemma render_post_not_owner:
  assumes "\<not> is_owner post"
  shows "requests_sent (fst (render_post be clicked (JDict post) w)) = requests_sent w"
    and "filter is_delete_button (screen (fst (render_post be clicked (JDict post) w)))
           = filter is_delete_button (screen w)"
  using assms by (simp_all add: render_post_def is_owner_def Let_def split: sum.splits)

lemma render_post_requests:
  assumes "req \<in> set (requests_sent (fst (render_post be clicked p w)))"
    and "req \<notin> set (requests_sent w)"
  shows "\<exists>post post_id bearer. p = JDict post \<and> is_owner post
           \<and> map_of post (py ''id'') = Some post_id \<and> clicked post_id
           \<and> req = DELETE_post post_id bearer"
  using assms
  by (auto simp: render_post_def is_owner_def subscript_def http_def Let_def
      split: json.splits sum.splits call.splits option.splits if_splits)

lemma feed_posts_requests:
  assumes "req \<in> set (requests_sent (fst (feed_posts be clicked ps w)))"
    and "req \<notin> set (requests_sent w)"
  shows "\<exists>post post_id bearer. JDict post \<in> set ps \<and> is_owner post
           \<and> map_of post (py ''id'') = Some post_id \<and> clicked post_id
           \<and> req = DELETE_post post_id bearer"
  using assms
proof (induction ps arbitrary: w)
  case Nil
  then show ?case by simp
next
  case (Cons p ps)
  obtain w1 out where r: "render_post be clicked p w = (w1, out)"
    by (cases "render_post be clicked p w")
  show ?case
  proof (cases "req \<in> set (requests_sent w1)")
    case True
    with r Cons.prems(2) render_post_requests [of req be clicked p w] show ?thesis by auto
  next
    case False
    with r Cons.prems(1) have "out = Done" by (cases out) auto
    with r Cons.prems(1) have "req \<in> set (requests_sent (fst (feed_posts be clicked ps w1)))" by simp
    from Cons.IH [OF this False] show ?thesis by auto
  qed
qed

lemma feed_posts_buttons:
  assumes "e \<in> set (filter is_delete_button (screen (fst (feed_posts be clicked ps w))))"
    and "e \<notin> set (filter is_delete_button (screen w))"
  shows "\<exists>post post_id. JDict post \<in> set ps \<and> is_owner post
           \<and> map_of post (py ''id'') = Some post_id \<and> e = DeleteButton post_id"
  using assms
proof (induction ps arbitrary: w)
  case Nil
  then show ?case by simp
next
  case (Cons p ps)
  obtain w1 out where r: "render_post be clicked p w = (w1, out)"
    by (cases "render_post be clicked p w")
  show ?case
  proof (cases "e \<in> set (filter is_delete_button (screen w1))")
    case True
    with r Cons.prems(2) render_post_buttons [of e be clicked p w] show ?thesis by auto
  next
    case False
    with r Cons.prems(1) have "out = Done" by (cases out) auto
    with r Cons.prems(1)
    have "e \<in> set (filter is_delete_button (screen (fst (feed_posts be clicked ps w1))))" by simp
    from Cons.IH [OF this False] show ?thesis by auto
  qed
qed

section \<open>The URL transform builder: claims\<close>

text \<open>
  C1 (the code departs from the claim). With a non-empty caption the builder drops the
  transform argument and embeds the token \<open>quote (b64encode (utf8 caption))\<close>, but
  \<^verbatim>\<open>quote\<close> keeps the slash: the caption \<^verbatim>\<open>???\<close> has the base64 text \<^verbatim>\<open>Pz8/\<close>, and the token
  in the built URL is \<^verbatim>\<open>Pz8/\<close> with its slash unescaped, in the middle of the transform
  segment of the path.
\<close>

theorem overlay_token_keeps_slash:
  "create_transformed_url (JStr (py ''https://ik.io/abc/d/e.jpg'')) (py ''w-10'') (JStr (py ''???''))
     = Inr (JStr (py ''https://ik.io/abc/tr:l-text,ie-Pz8/,ly-N20,lx-20,fs-100,co-white,bg-000000A0,l-end/d/e.jpg''))"
  by (simp add: create_transformed_url_def overlay_params_def encode_text_for_overlay_def
      encode_utf8_def unicode_text_def is_scalar_def utf8_bytes_def utf8_code_point_def
      quote_def quote_byte_def quote_safe_def b64char_def b64_alphabet_def
      splice_def slash_def py_def Let_def)

text \<open>
  C5. For a URL of at least five segments, an empty caption (\<^verbatim>\<open>None\<close> or the empty
  string) and a non-empty transform, the builder returns the first four segments
  joined by slashes, then \<^verbatim>\<open>/tr:\<close> and the transform, then a slash and the remaining
  segments joined by slashes; and the URL \<^verbatim>\<open>https://ik.io/abc/d/e.jpg\<close> with the
  transform \<^verbatim>\<open>w-10\<close> gives \<^verbatim>\<open>https://ik.io/abc/tr:w-10/d/e.jpg\<close>.
\<close>

theorem splice_transform:
  assumes "5 \<le> length (str_split slash url)" and "t \<noteq> []" and "\<not> truthy caption"
  shows "create_transformed_url (JStr url) t caption
           = Inr (JStr (str_join (py ''/'') (take 4 (str_split slash url)) @ py ''/tr:'' @ t
                        @ py ''/'' @ str_join (py ''/'') (drop 4 (str_split slash url))))
         \<and> create_transformed_url (JStr (py ''https://ik.io/abc/d/e.jpg'')) (py ''w-10'') JNull
           = Inr (JStr (py ''https://ik.io/abc/tr:w-10/d/e.jpg''))"
proof -
  have ex: "create_transformed_url (JStr (py ''https://ik.io/abc/d/e.jpg'')) (py ''w-10'') JNull
           = Inr (JStr (py ''https://ik.io/abc/tr:w-10/d/e.jpg''))"
    by (simp add: create_transformed_url_def overlay_params_def splice_def slash_def py_def Let_def)
  from assms have "create_transformed_url (JStr url) t caption
           = Inr (JStr (str_join (py ''/'') (take 4 (str_split slash url)) @ py ''/tr:'' @ t
                        @ py ''/'' @ str_join (py ''/'') (drop 4 (str_split slash url))))"
    by (simp add: create_transformed_url_def overlay_params_def splice_def Let_def)
  with ex show ?thesis by simp
qed

theorem splice_transform_witness:
  "5 \<le> length (str_split slash (py ''http://h/i/p/q.png'')) \<and> py ''w-400'' \<noteq> []
   \<and> \<not> truthy (JStr [])
   \<and> create_transformed_url (JStr (py ''http://h/i/p/q.png'')) (py ''w-400'') (JStr [])
       = Inr (JStr (py ''http://h/i/tr:w-400/p/q.png''))"
proof -
  have h1: "5 \<le> length (str_split slash (py ''http://h/i/p/q.png''))"
    by (simp add: slash_def py_def)
  have h2: "py ''w-400'' \<noteq> []" by (simp add: py_def)
  have h3: "\<not> truthy (JStr [])" by simp
  have "create_transformed_url (JStr (py ''http://h/i/p/q.png'')) (py ''w-400'') (JStr [])
          = Inr (JStr (str_join (py ''/'') (take 4 (str_split slash (py ''http://h/i/p/q.png'')))
              @ py ''/tr:'' @ py ''w-400'' @ py ''/''
              @ str_join (py ''/'') (drop 4 (str_split slash (py ''http://h/i/p/q.png'')))))"
    using splice_transform [OF h1 h2 h3] by (rule conjunct1)
  also have "\<dots> = Inr (JStr (py ''http://h/i/tr:w-400/p/q.png''))"
    by (simp add: slash_def py_def)
  finally show ?thesis using h1 h2 h3 by blast
qed




text \<open>
  A slash in the base64 text (C1) cuts the transform segment in the middle of the
  token: for the caption \<^verbatim>\<open>???\<close> the segment at index 4 is \<^verbatim>\<open>tr:l-text,ie-Pz8\<close>, without the
  tail of the template, and no token is read off it.
\<close>

lemma slash_token_cut:
  "create_transformed_url (JStr (py ''https://ik.io/abc/d/e.jpg'')) [] (JStr (py ''???''))
     = Inr (JStr (py ''https://ik.io/abc/tr:l-text,ie-Pz8/,ly-N20,lx-20,fs-100,co-white,bg-000000A0,l-end/d/e.jpg''))
   \<and> str_split slash (py ''https://ik.io/abc/tr:l-text,ie-Pz8/,ly-N20,lx-20,fs-100,co-white,bg-000000A0,l-end/d/e.jpg'') ! 4
     = py ''tr:l-text,ie-Pz8''
   \<and> embedded_token (py ''https://ik.io/abc/tr:l-text,ie-Pz8/,ly-N20,lx-20,fs-100,co-white,bg-000000A0,l-end/d/e.jpg'')
     = None"
  by (simp add: create_transformed_url_def overlay_params_def encode_text_for_overlay_def
      encode_utf8_def unicode_text_def is_scalar_def utf8_bytes_def utf8_code_point_def
      b64char_def b64_alphabet_def quote_def quote_byte_def quote_safe_def
      splice_def embedded_token_def strip_affixes_def slash_def py_def Let_def)

text \<open>
  C8. For a URL of fewer than five segments, any transform and no caption (\<^verbatim>\<open>None\<close>, or
  any other falsy caption), the builder returns the URL unchanged; the empty URL is
  one of them.
\<close>

theorem short_url_unchanged:
  assumes "length (str_split slash url) < 5" and "\<not> truthy caption"
  shows "create_transformed_url (JStr url) t caption = Inr (JStr url)
         \<and> create_transformed_url (JStr []) t JNull = Inr (JStr [])"
  using assms by (simp add: create_transformed_url_def overlay_params_def splice_def Let_def)

theorem short_url_unchanged_witness:
  "length (str_split slash (py ''a/b'')) < 5 \<and> \<not> truthy JNull
   \<and> create_transformed_url (JStr (py ''a/b'')) (py ''w-10'') JNull = Inr (JStr (py ''a/b''))
   \<and> create_transformed_url (JStr []) (py ''w-10'') JNull = Inr (JStr [])"
proof -
  have h1: "length (str_split slash (py ''a/b'')) < 5" by (simp add: slash_def py_def)
  have h2: "\<not> truthy JNull" by simp
  from short_url_unchanged [OF h1 h2, of "py ''w-10''"] h1 h2 show ?thesis by blast
qed

section \<open>The session controller: claims\<close>

text \<open>
  C3. With a token set (as after the restore from the query parameter), no user and
  the flag down, an answer of \<^verbatim>\<open>/users/me\<close> with a status other than 200 makes the
  reconcile block clear the token, the user and the query parameter and raise
  \<open>last_token_check_failed\<close>. The next pass over the top of the script changes nothing
  and sends nothing, and so does every later one of the session, whatever runs in
  between: the flag stays up and the reconcile block does not fire.
\<close>

theorem reconcile_rejected:
  assumes "truthy (token w)" and "user w = JNull" and "\<not> last_token_check_failed w"
    and "be (requests_sent w) (GET_users_me (Some (token w))) = Returns r"
    and "status_code r \<noteq> 200"
  shows "reconcile be w =
           w\<lparr>token := JNull, user := JNull, last_token_check_failed := True, query_token := None,
             requests_sent := requests_sent w @ [GET_users_me (Some (token w))]\<rparr>
         \<and> prologue be' (reconcile be w) = reconcile be w
         \<and> last_token_check_failed (script_runs be' inps (reconcile be w))
         \<and> prologue be'' (script_runs be' inps (reconcile be w))
             = restore_token (script_runs be' inps (reconcile be w))"
proof -
  have eq: "reconcile be w =
           w\<lparr>token := JNull, user := JNull, last_token_check_failed := True, query_token := None,
             requests_sent := requests_sent w @ [GET_users_me (Some (token w))]\<rparr>"
    using assms by (simp add: reconcile_def http_def get_headers_def)
  then have flag: "last_token_check_failed (reconcile be w)" by simp
  have "restore_token (reconcile be w) = reconcile be w"
    using eq by (simp add: restore_token_def)
  then have again: "prologue be' (reconcile be w) = reconcile be w"
    using flag by (simp add: prologue_def reconcile_flag_set)
  have later: "last_token_check_failed (script_runs be' inps (reconcile be w))"
    using flag by (rule script_runs_flag)
  from eq again later prologue_flag_set [OF later] show ?thesis by simp
qed

theorem reconcile_rejected_witness:
  "let w = restore_token (new_session (Some (JStr (py ''stale''))));
       r = \<lparr>status_code = 401, json_body = None, body_text = []\<rparr>;
       be = (\<lambda>log req. Returns r);
       inps = [\<lparr>email_field = [], password_field = [], pressed = NoClick, logout_pressed = False,
          page = FeedPage, delete_clicked = (\<lambda>i. False), chosen_file = None,
          caption_field = [], share_pressed = False\<rparr>]
   in truthy (token w) \<and> user w = JNull \<and> \<not> last_token_check_failed w
      \<and> be (requests_sent w) (GET_users_me (Some (token w))) = Returns r
      \<and> status_code r \<noteq> 200
      \<and> reconcile be w =
           \<lparr>token = JNull, user = JNull, last_token_check_failed = True, query_token = None,
            requests_sent = [GET_users_me (Some (JStr (py ''stale'')))], screen = []\<rparr>
      \<and> prologue be (reconcile be w) = reconcile be w
      \<and> last_token_check_failed (script_runs be inps (reconcile be w))
      \<and> prologue be (script_runs be inps (reconcile be w))
          = restore_token (script_runs be inps (reconcile be w))"
proof -
  let ?w = "restore_token (new_session (Some (JStr (py ''stale''))))"
  let ?r = "\<lparr>status_code = 401, json_body = None, body_text = []\<rparr>"
  let ?be = "\<lambda>(log :: request list) (req :: request). Returns ?r"
  let ?inps = "[\<lparr>email_field = [], password_field = [], pressed = NoClick, logout_pressed = False,
          page = FeedPage, delete_clicked = (\<lambda>i. False), chosen_file = None,
          caption_field = [], share_pressed = False\<rparr>]"
  have h1: "truthy (token ?w)" by (simp add: restore_token_def new_session_def py_def)
  have h2: "user ?w = JNull" by (simp add: restore_token_def new_session_def)
  have h3: "\<not> last_token_check_failed ?w" by (simp add: new_session_def)
  have h4: "?be (requests_sent ?w) (GET_users_me (Some (token ?w))) = Returns ?r" by simp
  have h5: "status_code ?r \<noteq> 200" by simp
  note c = reconcile_rejected [OF h1 h2 h3 h4 h5, of ?be ?inps ?be]
  from c have "reconcile ?be ?w =
           ?w\<lparr>token := JNull, user := JNull, last_token_check_failed := True, query_token := None,
             requests_sent := requests_sent ?w @ [GET_users_me (Some (token ?w))]\<rparr>"
    by (rule conjunct1)
  also have "\<dots> = \<lparr>token = JNull, user = JNull, last_token_check_failed = True, query_token = None,
            requests_sent = [GET_users_me (Some (JStr (py ''stale'')))], screen = []\<rparr>"
    by (simp add: restore_token_def new_session_def py_def)
  finally have e: "reconcile ?be ?w =
           \<lparr>token = JNull, user = JNull, last_token_check_failed = True, query_token = None,
            requests_sent = [GET_users_me (Some (JStr (py ''stale'')))], screen = []\<rparr>" .
  show ?thesis unfolding Let_def using h1 h2 h3 h4 h5 c e by blast
qed

text \<open>
  C4. When the call of \<^verbatim>\<open>/users/me\<close> in the reconcile block raises, the token, the user
  and the query parameter are as before; only \<open>last_token_check_failed\<close> is raised
  (and the request is on the log). No later pass over the top of the script in the
  session fires the reconcile block again.
\<close>

theorem reconcile_transport_failure:
  assumes "truthy (token w)" and "user w = JNull" and "\<not> last_token_check_failed w"
    and "be (requests_sent w) (GET_users_me (Some (token w))) = Fails"
  shows "reconcile be w =
           w\<lparr>last_token_check_failed := True,
             requests_sent := requests_sent w @ [GET_users_me (Some (token w))]\<rparr>
         \<and> token (reconcile be w) = token w
         \<and> user (reconcile be w) = user w
         \<and> query_token (reconcile be w) = query_token w
         \<and> prologue be' (reconcile be w) = reconcile be w
         \<and> last_token_check_failed (script_runs be' inps (reconcile be w))
         \<and> prologue be'' (script_runs be' inps (reconcile be w))
             = restore_token (script_runs be' inps (reconcile be w))"
proof -
  have eq: "reconcile be w =
           w\<lparr>last_token_check_failed := True,
             requests_sent := requests_sent w @ [GET_users_me (Some (token w))]\<rparr>"
    using assms by (simp add: reconcile_def http_def get_headers_def)
  then have flag: "last_token_check_failed (reconcile be w)" by simp
  have "restore_token (reconcile be w) = reconcile be w"
    using eq assms(1) by (simp add: restore_token_def split: option.splits)
  then have again: "prologue be' (reconcile be w) = reconcile be w"
    using flag by (simp add: prologue_def reconcile_flag_set)
  have later: "last_token_check_failed (script_runs be' inps (reconcile be w))"
    using flag by (rule script_runs_flag)
  from eq again later prologue_flag_set [OF later] show ?thesis by simp
qed

theorem reconcile_transport_failure_witness:
  "let w = restore_token (new_session (Some (JStr (py ''tok''))));
       be = (\<lambda>log req. Fails);
       inps = [\<lparr>email_field = [], password_field = [], pressed = NoClick, logout_pressed = False,
          page = FeedPage, delete_clicked = (\<lambda>i. False), chosen_file = None,
          caption_field = [], share_pressed = False\<rparr>]
   in truthy (token w) \<and> user w = JNull \<and> \<not> last_token_check_failed w
      \<and> be (requests_sent w) (GET_users_me (Some (token w))) = Fails
      \<and> reconcile be w =
           \<lparr>token = JStr (py ''tok''), user = JNull, last_token_check_failed = True,
            query_token = Some (JStr (py ''tok'')),
            requests_sent = [GET_users_me (Some (JStr (py ''tok'')))], screen = []\<rparr>
      \<and> token (reconcile be w) = token w
      \<and> user (reconcile be w) = user w
      \<and> query_token (reconcile be w) = query_token w
      \<and> prologue be (reconcile be w) = reconcile be w
      \<and> last_token_check_failed (script_runs be inps (reconcile be w))
      \<and> prologue be (script_runs be inps (reconcile be w))
          = restore_token (script_runs be inps (reconcile be w))"
proof -
  let ?w = "restore_token (new_session (Some (JStr (py ''tok''))))"
  let ?be = "\<lambda>(log :: request list) (req :: request). (Fails :: response call)"
  let ?inps = "[\<lparr>email_field = [], password_field = [], pressed = NoClick, logout_pressed = False,
          page = FeedPage, delete_clicked = (\<lambda>i. False), chosen_file = None,
          caption_field = [], share_pressed = False\<rparr>]"
  have h1: "truthy (token ?w)" by (simp add: restore_token_def new_session_def py_def)
  have h2: "user ?w = JNull" by (simp add: restore_token_def new_session_def)
  have h3: "\<not> last_token_check_failed ?w" by (simp add: new_session_def)
  have h4: "?be (requests_sent ?w) (GET_users_me (Some (token ?w))) = Fails" by simp
  note c = reconcile_transport_failure [OF h1 h2 h3 h4, of ?be ?inps ?be]
  from c have "reconcile ?be ?w =
           ?w\<lparr>last_token_check_failed := True,
             requests_sent := requests_sent ?w @ [GET_users_me (Some (token ?w))]\<rparr>"
    by (rule conjunct1)
  also have "\<dots> = \<lparr>token = JStr (py ''tok''), user = JNull, last_token_check_failed = True,
            query_token = Some (JStr (py ''tok'')),
            requests_sent = [GET_users_me (Some (JStr (py ''tok'')))], screen = []\<rparr>"
    by (simp add: restore_token_def new_session_def py_def)
  finally have e: "reconcile ?be ?w =
           \<lparr>token = JStr (py ''tok''), user = JNull, last_token_check_failed = True,
            query_token = Some (JStr (py ''tok'')),
            requests_sent = [GET_users_me (Some (JStr (py ''tok'')))], screen = []\<rparr>" .
  show ?thesis unfolding Let_def using h1 h2 h3 h4 c e by blast
qed

section \<open>The login page: claims\<close>

text \<open>
  C2 (the code departs from the claim). The login POST, the registration POST and the
  call of the reconcile block stand in a \<^verbatim>\<open>try\<close>; the identity fetch of line 106 does
  not. When the backend accepts the login and the fetch of \<^verbatim>\<open>/users/me\<close> then raises,
  the exception leaves \<^verbatim>\<open>login_page\<close>: the token and the query parameter are set, no
  message is on the screen.
\<close>

theorem login_identity_fetch_uncaught:
  "login_page
     (\<lambda>log req. case req of
        POST_login e p \<Rightarrow>
          Returns \<lparr>status_code = 200,
                   json_body = Some (JDict [(py ''access_token'', JStr (py ''t0''))]),
                   body_text = []\<rparr>
      | _ \<Rightarrow> Fails)
     (py ''a@b.c'') (py ''pw'') LoginClick (new_session None)
   = (\<lparr>token = JStr (py ''t0''), user = JNull, last_token_check_failed = False,
       query_token = Some (JStr (py ''t0'')),
       requests_sent = [POST_login (py ''a@b.c'') (py ''pw''), GET_users_me (Some (JStr (py ''t0'')))],
       screen = []\<rparr>,
      Raised TransportError)"
  by (simp add: login_page_def login_clicked_def http_def get_headers_def new_session_def
      subscript_def py_def Let_def)

text \<open>
  C7. When the backend answers the login POST with 200 and an access token and the
  identity fetch that follows with 200 and a body that has an email, the one run of
  the Login button stores the token in the session and in the query parameter, stores
  the identity as the user and asks for a rerun: the session is \<open>Authenticated\<close> and
  \<^verbatim>\<open>user['email']\<close> is the email of the identity response.
\<close>

theorem login_then_identity:
  assumes "email \<noteq> []" and "password \<noteq> []"
    and "be (requests_sent w) (POST_login email password) = Returns r1"
    and "status_code r1 = 200" and "json_body r1 = Some token_data"
    and "subscript token_data ''access_token'' = Inr tok" and "truthy tok"
    and "be (requests_sent w @ [POST_login email password]) (GET_users_me (Some tok)) = Returns r2"
    and "status_code r2 = 200" and "json_body r2 = Some u"
    and "subscript u ''email'' = Inr address"
  shows "login_page be email password LoginClick w =
           (w\<lparr>token := tok, user := u, query_token := Some tok,
              requests_sent := requests_sent w @ [POST_login email password, GET_users_me (Some tok)]\<rparr>,
            Rerun)
         \<and> state_of (fst (login_page be email password LoginClick w)) = Authenticated
         \<and> subscript (user (fst (login_page be email password LoginClick w))) ''email'' = Inr address
         \<and> query_token (fst (login_page be email password LoginClick w)) = Some tok"
proof -
  have eq: "login_page be email password LoginClick w =
           (w\<lparr>token := tok, user := u, query_token := Some tok,
              requests_sent := requests_sent w @ [POST_login email password, GET_users_me (Some tok)]\<rparr>,
            Rerun)"
    using assms by (simp add: login_page_def login_clicked_def http_def get_headers_def Let_def)
  have "u \<noteq> JNull" using assms(11) by (auto simp: subscript_def)
  with eq assms(7,11) show ?thesis by (simp add: state_of_def)
qed

theorem login_then_identity_witness:
  "let be = (\<lambda>log req. case req of
               POST_login e p \<Rightarrow>
                 Returns \<lparr>status_code = 200,
                          json_body = Some (JDict [(py ''access_token'', JStr (py ''t0''))]),
                          body_text = []\<rparr>
             | _ \<Rightarrow>
                 Returns \<lparr>status_code = 200,
                          json_body = Some (JDict [(py ''email'', JStr (py ''a@b.c''))]),
                          body_text = []\<rparr>)
   in login_page be (py ''a@b.c'') (py ''pw'') LoginClick (new_session None) =
        (\<lparr>token = JStr (py ''t0''),
          user = JDict [(py ''email'', JStr (py ''a@b.c''))],
          last_token_check_failed = False,
          query_token = Some (JStr (py ''t0'')),
          requests_sent = [POST_login (py ''a@b.c'') (py ''pw''),
                           GET_users_me (Some (JStr (py ''t0'')))],
          screen = []\<rparr>,
         Rerun)
      \<and> state_of (fst (login_page be (py ''a@b.c'') (py ''pw'') LoginClick (new_session None)))
          = Authenticated
      \<and> subscript (user (fst (login_page be (py ''a@b.c'') (py ''pw'') LoginClick
            (new_session None)))) ''email'' = Inr (JStr (py ''a@b.c''))"
proof -
  let ?r1 = "\<lparr>status_code = 200,
                json_body = Some (JDict [(py ''access_token'', JStr (py ''t0''))]),
                body_text = []\<rparr>"
  let ?r2 = "\<lparr>status_code = 200,
                json_body = Some (JDict [(py ''email'', JStr (py ''a@b.c''))]),
                body_text = []\<rparr>"
  let ?be = "\<lambda>(log :: request list) req.
               case req of POST_login e p \<Rightarrow> Returns ?r1 | _ \<Rightarrow> Returns ?r2"
  let ?w = "new_session None"
  have h1: "py ''a@b.c'' \<noteq> []" by (simp add: py_def)
  have h2: "py ''pw'' \<noteq> []" by (simp add: py_def)
  have h3: "?be (requests_sent ?w) (POST_login (py ''a@b.c'') (py ''pw'')) = Returns ?r1" by simp
  have h4: "status_code ?r1 = 200" by simp
  have h5: "json_body ?r1 = Some (JDict [(py ''access_token'', JStr (py ''t0''))])" by simp
  have h6: "subscript (JDict [(py ''access_token'', JStr (py ''t0''))]) ''access_token''
              = Inr (JStr (py ''t0''))"
    by (simp add: subscript_def)
  have h7: "truthy (JStr (py ''t0''))" by (simp add: py_def)
  have h8: "?be (requests_sent ?w @ [POST_login (py ''a@b.c'') (py ''pw'')])
              (GET_users_me (Some (JStr (py ''t0'')))) = Returns ?r2" by simp
  have h9: "status_code ?r2 = 200" by simp
  have h10: "json_body ?r2 = Some (JDict [(py ''email'', JStr (py ''a@b.c''))])" by simp
  have h11: "subscript (JDict [(py ''email'', JStr (py ''a@b.c''))]) ''email''
              = Inr (JStr (py ''a@b.c''))"
    by (simp add: subscript_def)
  note c = login_then_identity [OF h1 h2 h3 h4 h5 h6 h7 h8 h9 h10 h11]
  from c have "login_page ?be (py ''a@b.c'') (py ''pw'') LoginClick ?w =
           (?w\<lparr>token := JStr (py ''t0''), user := JDict [(py ''email'', JStr (py ''a@b.c''))],
              query_token := Some (JStr (py ''t0'')),
              requests_sent := requests_sent ?w
                @ [POST_login (py ''a@b.c'') (py ''pw''), GET_users_me (Some (JStr (py ''t0'')))]\<rparr>,
            Rerun)"
    by (rule conjunct1)
  also have "\<dots> = (\<lparr>token = JStr (py ''t0''),
          user = JDict [(py ''email'', JStr (py ''a@b.c''))],
          last_token_check_failed = False,
          query_token = Some (JStr (py ''t0'')),
          requests_sent = [POST_login (py ''a@b.c'') (py ''pw''),
                           GET_users_me (Some (JStr (py ''t0'')))],
          screen = []\<rparr>,
         Rerun)"
    by (simp add: new_session_def)
  finally have e: "login_page ?be (py ''a@b.c'') (py ''pw'') LoginClick ?w =
        (\<lparr>token = JStr (py ''t0''),
          user = JDict [(py ''email'', JStr (py ''a@b.c''))],
          last_token_check_failed = False,
          query_token = Some (JStr (py ''t0'')),
          requests_sent = [POST_login (py ''a@b.c'') (py ''pw''),
                           GET_users_me (Some (JStr (py ''t0'')))],
          screen = []\<rparr>,
         Rerun)" .
  show ?thesis unfolding Let_def using c e by blast
qed

text \<open>
  C10. When the backend answers the login POST with 200 and an access token and the
  identity fetch that follows with a status other than 200, the Login button leaves
  the token in the session and in the query parameter, does not touch
  \<open>last_token_check_failed\<close> or the user, and shows the one message
  \<^verbatim>\<open>Failed to get user info\<close>. The session is then \<open>PendingVerification\<close> unless the flag
  was already up, and the next page load, which starts from the query parameter,
  starts in \<open>PendingVerification\<close>.
\<close>

theorem login_identity_rejected:
  assumes "email \<noteq> []" and "password \<noteq> []" and "user w = JNull"
    and "be (requests_sent w) (POST_login email password) = Returns r1"
    and "status_code r1 = 200" and "json_body r1 = Some token_data"
    and "subscript token_data ''access_token'' = Inr tok" and "truthy tok"
    and "be (requests_sent w @ [POST_login email password]) (GET_users_me (Some tok)) = Returns r2"
    and "status_code r2 \<noteq> 200"
  shows "login_page be email password LoginClick w =
           (w\<lparr>token := tok, query_token := Some tok,
              requests_sent := requests_sent w @ [POST_login email password, GET_users_me (Some tok)],
              screen := screen w @ [StError ''Failed to get user info'']\<rparr>,
            Done)
         \<and> last_token_check_failed (fst (login_page be email password LoginClick w))
             = last_token_check_failed w
         \<and> state_of (fst (login_page be email password LoginClick w))
             = (if last_token_check_failed w then VerificationFailed else PendingVerification)
         \<and> state_of (restore_token
               (new_session (query_token (fst (login_page be email password LoginClick w)))))
             = PendingVerification"
proof -
  have eq: "login_page be email password LoginClick w =
           (w\<lparr>token := tok, query_token := Some tok,
              requests_sent := requests_sent w @ [POST_login email password, GET_users_me (Some tok)],
              screen := screen w @ [StError ''Failed to get user info'']\<rparr>,
            Done)"
    using assms
    by (simp add: login_page_def login_clicked_def http_def get_headers_def display_def Let_def)
  with assms(3,8) show ?thesis
    by (simp add: state_of_def restore_token_def new_session_def)
qed

theorem login_identity_rejected_witness:
  "let be = (\<lambda>log req. case req of
               POST_login e p \<Rightarrow>
                 Returns \<lparr>status_code = 200,
                          json_body = Some (JDict [(py ''access_token'', JStr (py ''t0''))]),
                          body_text = []\<rparr>
             | _ \<Rightarrow> Returns \<lparr>status_code = 500, json_body = None, body_text = []\<rparr>)
   in login_page be (py ''a@b.c'') (py ''pw'') LoginClick (new_session None) =
        (\<lparr>token = JStr (py ''t0''), user = JNull, last_token_check_failed = False,
          query_token = Some (JStr (py ''t0'')),
          requests_sent = [POST_login (py ''a@b.c'') (py ''pw''),
                           GET_users_me (Some (JStr (py ''t0'')))],
          screen = [StError ''Failed to get user info'']\<rparr>,
         Done)
      \<and> state_of (fst (login_page be (py ''a@b.c'') (py ''pw'') LoginClick (new_session None)))
          = PendingVerification
      \<and> state_of (restore_token (new_session (query_token
            (fst (login_page be (py ''a@b.c'') (py ''pw'') LoginClick (new_session None))))))
          = PendingVerification"
proof -
  let ?r1 = "\<lparr>status_code = 200,
                json_body = Some (JDict [(py ''access_token'', JStr (py ''t0''))]),
                body_text = []\<rparr>"
  let ?r2 = "\<lparr>status_code = 500, json_body = None, body_text = []\<rparr>"
  let ?be = "\<lambda>(log :: request list) req.
               case req of POST_login e p \<Rightarrow> Returns ?r1 | _ \<Rightarrow> Returns ?r2"
  let ?w = "new_session None"
  have h1: "py ''a@b.c'' \<noteq> []" by (simp add: py_def)
  have h2: "py ''pw'' \<noteq> []" by (simp add: py_def)
  have h3: "user ?w = JNull" by (simp add: new_session_def)
  have h4: "?be (requests_sent ?w) (POST_login (py ''a@b.c'') (py ''pw'')) = Returns ?r1" by simp
  have h5: "status_code ?r1 = 200" by simp
  have h6: "json_body ?r1 = Some (JDict [(py ''access_token'', JStr (py ''t0''))])" by simp
  have h7: "subscript (JDict [(py ''access_token'', JStr (py ''t0''))]) ''access_token''
              = Inr (JStr (py ''t0''))"
    by (simp add: subscript_def)
  have h8: "truthy (JStr (py ''t0''))" by (simp add: py_def)
  have h9: "?be (requests_sent ?w @ [POST_login (py ''a@b.c'') (py ''pw'')])
              (GET_users_me (Some (JStr (py ''t0'')))) = Returns ?r2" by simp
  have h10: "status_code ?r2 \<noteq> 200" by simp
  note c = login_identity_rejected [OF h1 h2 h3 h4 h5 h6 h7 h8 h9 h10]
  from c have "login_page ?be (py ''a@b.c'') (py ''pw'') LoginClick ?w =
           (?w\<lparr>token := JStr (py ''t0''), query_token := Some (JStr (py ''t0'')),
              requests_sent := requests_sent ?w
                @ [POST_login (py ''a@b.c'') (py ''pw''), GET_users_me (Some (JStr (py ''t0'')))],
              screen := screen ?w @ [StError ''Failed to get user info'']\<rparr>,
            Done)"
    by (rule conjunct1)
  also have "\<dots> = (\<lparr>token = JStr (py ''t0''), user = JNull, last_token_check_failed = False,
          query_token = Some (JStr (py ''t0'')),
          requests_sent = [POST_login (py ''a@b.c'') (py ''pw''),
                           GET_users_me (Some (JStr (py ''t0'')))],
          screen = [StError ''Failed to get user info'']\<rparr>,
         Done)"
    by (simp add: new_session_def)
  finally have e: "login_page ?be (py ''a@b.c'') (py ''pw'') LoginClick ?w =
        (\<lparr>token = JStr (py ''t0''), user = JNull, last_token_check_failed = False,
          query_token = Some (JStr (py ''t0'')),
          requests_sent = [POST_login (py ''a@b.c'') (py ''pw''),
                           GET_users_me (Some (JStr (py ''t0'')))],
          screen = [StError ''Failed to get user info'']\<rparr>,
         Done)" .
  have nf: "\<not> last_token_check_failed ?w" by (simp add: new_session_def)
  from c have "state_of (fst (login_page ?be (py ''a@b.c'') (py ''pw'') LoginClick ?w))
          = (if last_token_check_failed ?w then VerificationFailed else PendingVerification)"
    by blast
  also have "\<dots> = PendingVerification" using nf by simp
  finally have s: "state_of (fst (login_page ?be (py ''a@b.c'') (py ''pw'') LoginClick ?w))
          = PendingVerification" .
  show ?thesis unfolding Let_def using c e s by blast
qed

section \<open>The feed page: claims\<close>

text \<open>
  C9. The body of the feed loop, run on a post whose \<^verbatim>\<open>is_owner\<close> is false, absent or
  otherwise falsy, sends no request and puts no delete button on the screen. Over a
  whole feed, every request the loop sends is the DELETE of a post of the feed whose
  \<^verbatim>\<open>is_owner\<close> is truthy and whose button was pressed, under that post's id, and every
  delete button it draws is the button of such a post.
\<close>

theorem delete_only_for_owner:
  "(\<not> is_owner post \<longrightarrow>
      requests_sent (fst (render_post be clicked (JDict post) w)) = requests_sent w
      \<and> filter is_delete_button (screen (fst (render_post be clicked (JDict post) w)))
          = filter is_delete_button (screen w))
   \<and> (\<forall>req \<in> set (requests_sent (fst (feed_posts be clicked ps w))) - set (requests_sent w).
        \<exists>post post_id bearer. JDict post \<in> set ps \<and> is_owner post
           \<and> map_of post (py ''id'') = Some post_id \<and> clicked post_id
           \<and> req = DELETE_post post_id bearer)
   \<and> (\<forall>e \<in> set (filter is_delete_button (screen (fst (feed_posts be clicked ps w))))
              - set (filter is_delete_button (screen w)).
        \<exists>post post_id. JDict post \<in> set ps \<and> is_owner post
           \<and> map_of post (py ''id'') = Some post_id \<and> e = DeleteButton post_id)"
proof (intro conjI impI ballI)
  assume "\<not> is_owner post"
  then show "requests_sent (fst (render_post be clicked (JDict post) w)) = requests_sent w"
    by (rule render_post_not_owner(1))
next
  assume "\<not> is_owner post"
  then show "filter is_delete_button (screen (fst (render_post be clicked (JDict post) w)))
          = filter is_delete_button (screen w)"
    by (rule render_post_not_owner(2))
next
  fix req
  assume "req \<in> set (requests_sent (fst (feed_posts be clicked ps w))) - set (requests_sent w)"
  then show "\<exists>post post_id bearer. JDict post \<in> set ps \<and> is_owner post
           \<and> map_of post (py ''id'') = Some post_id \<and> clicked post_id
           \<and> req = DELETE_post post_id bearer"
    using feed_posts_requests [of req be clicked ps w] by simp
next
  fix e
  assume "e \<in> set (filter is_delete_button (screen (fst (feed_posts be clicked ps w))))
              - set (filter is_delete_button (screen w))"
  then show "\<exists>post post_id. JDict post \<in> set ps \<and> is_owner post
           \<and> map_of post (py ''id'') = Some post_id \<and> e = DeleteButton post_id"
    using feed_posts_buttons [of e be clicked ps w] by blast
qed

theorem delete_only_for_owner_witness:
  "let post = [(py ''id'', JInt 7), (py ''is_owner'', JBool False),
               (py ''file_type'', JStr (py ''image''))];
       be = (\<lambda>log req. Returns \<lparr>status_code = 200, json_body = None, body_text = []\<rparr>);
       clicked = (\<lambda>i. True);
       w = new_session None
   in \<not> is_owner post
      \<and> requests_sent (fst (render_post be clicked (JDict post) w)) = requests_sent w
      \<and> filter is_delete_button (screen (fst (render_post be clicked (JDict post) w)))
          = filter is_delete_button (screen w)"
proof -
  let ?post = "[(py ''id'', JInt 7), (py ''is_owner'', JBool False),
                (py ''file_type'', JStr (py ''image''))]"
  have h: "\<not> is_owner ?post" by (simp add: is_owner_def dict_get_def py_def)
  show ?thesis unfolding Let_def
    using h delete_only_for_owner [of ?post
      "\<lambda>log req. Returns \<lparr>status_code = 200, json_body = None, body_text = []\<rparr>"
      "\<lambda>i. True" "new_session None" "[JDict ?post]"]
    by blast
qed

end
